theory Spec2Isabelle
  imports Main
begin

section \<open>Recipe generator: request handlers over a relational store\<close>

text \<open>
  The handlers of \<^verbatim>\<open>src/actions/index.ts\<close> are embedded as functions that take the
  store and return the handler's outcome together with the store afterwards. A raised
  error is the \<open>Inl\<close> branch of the outcome; the store is returned on both branches, so
  that a write made before a \<^verbatim>\<open>throw\<close> stays visible.

  Two things come from outside the repository and are parameters of the handlers:
  \<^item> \<open>now\<close>, the value of \<^verbatim>\<open>new Date()\<close> read once at the start of a handler
    (a number of milliseconds);
  \<^item> \<open>uuid\<close>, the identifier generator: \<open>uuid n\<close> is what the \<open>n\<close>-th call of
    \<^verbatim>\<open>randomUUID()\<close> returns, and the store record counts the calls made so far.

  The store is a list of rows per table, in insertion order, and it keeps what the
  schema of the repository declares: every table's \<^verbatim>\<open>id\<close> is a primary key,
  \<^verbatim>\<open>GeneratedRecipes.sessionId\<close> refers to \<^verbatim>\<open>RecipeIdeaSessions.id\<close>, and the
  \<^verbatim>\<open>recipeId\<close> of an ingredient or a step refers to \<^verbatim>\<open>GeneratedRecipes.id\<close>. A statement
  that would break one of these is refused as a whole: it raises and changes nothing.
  An optional input field is an \<open>option\<close>: \<open>None\<close> is \<^verbatim>\<open>undefined\<close>.
\<close>

subsection \<open>Errors and the request context\<close>

text \<open>
  \<open>ActionError\<close> is what a handler throws itself. \<open>StoreError\<close> is an exception of the
  store; no handler catches it, and the caller sees it with the code
  \<^verbatim>\<open>INTERNAL_SERVER_ERROR\<close>.
\<close>

datatype error_code = UNAUTHORIZED | NOT_FOUND | INTERNAL_SERVER_ERROR

datatype action_error = ActionError error_code string | StoreError

fun error_code_of :: "action_error \<Rightarrow> error_code" where
  "error_code_of (ActionError c m) = c"
| "error_code_of StoreError = INTERNAL_SERVER_ERROR"

record app_user =
  user_id :: string

record app_locals =
  user :: "app_user option"

record api_context =
  locals :: "app_locals option"

definition requireUser :: "api_context \<Rightarrow> action_error + app_user" where
  "requireUser context =
     (case Option.bind (locals context) user of
        None \<Rightarrow> Inl (ActionError UNAUTHORIZED ''You must be signed in to perform this action.'')
      | Some u \<Rightarrow> Inr u)"

subsection \<open>Tables\<close>

record session_row =
  sess_id :: string
  sess_userId :: string
  sess_title :: "string option"
  sess_prompt :: "string option"
  sess_cuisinePreference :: "string option"
  sess_dietaryPreference :: "string option"
  sess_servingCount :: "int option"
  sess_createdAt :: nat
  sess_updatedAt :: nat

record recipe_row =
  rec_id :: string
  rec_sessionId :: "string option"
  rec_userId :: string
  rec_title :: string
  rec_description :: "string option"
  rec_cuisine :: "string option"
  rec_mealType :: "string option"
  rec_tags :: "string option"
  rec_servings :: "int option"
  rec_prepTimeMinutes :: "int option"
  rec_cookTimeMinutes :: "int option"
  rec_notes :: "string option"
  rec_isFavorite :: bool
  rec_createdAt :: nat
  rec_updatedAt :: nat

record ingredient_row =
  ing_id :: string
  ing_recipeId :: string
  ing_orderIndex :: "int option"
  ing_name :: string
  ing_quantity :: "string option"
  ing_notes :: "string option"
  ing_createdAt :: nat

record step_row =
  step_id :: string
  step_recipeId :: string
  step_orderIndex :: int
  step_instruction :: string
  step_tip :: "string option"
  step_createdAt :: nat

record store =
  RecipeIdeaSessions :: "session_row list"
  GeneratedRecipes :: "recipe_row list"
  GeneratedRecipeIngredients :: "ingredient_row list"
  GeneratedRecipeSteps :: "step_row list"
  uuid_calls :: nat

definition randomUUID :: "(nat \<Rightarrow> string) \<Rightarrow> store \<Rightarrow> string \<times> store" where
  "randomUUID uuid db = (uuid (uuid_calls db), db\<lparr>uuid_calls := Suc (uuid_calls db)\<rparr>)"

subsection \<open>Store operations\<close>

text \<open>
  \<^verbatim>\<open>eq(column, value)\<close> and \<^verbatim>\<open>and(f, g)\<close> build a condition on a row; a nullable column
  is compared with \<open>Some value\<close>, so a NULL never equals a value.
\<close>

definition db_eq :: "('r \<Rightarrow> 'v) \<Rightarrow> 'v \<Rightarrow> 'r \<Rightarrow> bool" where
  "db_eq column v r = (column r = v)"

definition db_and :: "('r \<Rightarrow> bool) \<Rightarrow> ('r \<Rightarrow> bool) \<Rightarrow> 'r \<Rightarrow> bool" where
  "db_and f g r = (f r \<and> g r)"

text \<open>
  A read hands the selected rows to the handler as JavaScript values. A stored integer
  outside the range of the safe integers (beyond \<open>2 ^ 53 - 1\<close> in size) cannot be handed
  over: the read raises. The number columns are \<^verbatim>\<open>servingCount\<close> of a session and
  \<^verbatim>\<open>servings\<close>, \<^verbatim>\<open>prepTimeMinutes\<close>, \<^verbatim>\<open>cookTimeMinutes\<close> of a recipe.
\<close>

definition safe_integer :: "int option \<Rightarrow> bool" where
  "safe_integer c =
     (case c of
        None \<Rightarrow> True
      | Some v \<Rightarrow> - 9007199254740991 \<le> v \<and> v \<le> 9007199254740991)"

definition readable_session :: "session_row \<Rightarrow> bool" where
  "readable_session r = safe_integer (sess_servingCount r)"

definition readable_recipe :: "recipe_row \<Rightarrow> bool" where
  "readable_recipe r =
     (safe_integer (rec_servings r) \<and> safe_integer (rec_prepTimeMinutes r)
      \<and> safe_integer (rec_cookTimeMinutes r))"

text \<open>\<^verbatim>\<open>select().from(t).where(c)\<close>, with the table's \<open>readable\<close>.\<close>

definition db_select :: "('r \<Rightarrow> bool) \<Rightarrow> ('r \<Rightarrow> bool) \<Rightarrow> 'r list \<Rightarrow> action_error + 'r list" where
  "db_select readable cond rows =
     (let found = filter cond rows
      in if list_all readable found then Inr found else Inl StoreError)"

text \<open>
  \<^verbatim>\<open>select().from(t).where(c).orderBy(k).limit(n).offset(m)\<close>. The offset is a 64-bit
  integer for the store: a larger one is refused. Rows of equal key keep their table
  order. Only the rows of the page are handed over.

  The handlers compute the offset in double precision; the model computes it exactly.
  The two agree as long as the product is a safe integer, which is where the properties
  below are stated.
\<close>

definition db_select_page ::
  "('r \<Rightarrow> bool) \<Rightarrow> ('r \<Rightarrow> bool) \<Rightarrow> ('r \<Rightarrow> nat) \<Rightarrow> nat \<Rightarrow> nat \<Rightarrow> 'r list
     \<Rightarrow> action_error + 'r list" where
  "db_select_page readable cond orderBy limit offset rows =
     (if offset > 9223372036854775807 then Inl StoreError
      else let found = take limit (drop offset (sort_key orderBy (filter cond rows)))
           in if list_all readable found then Inr found else Inl StoreError)"

text \<open>
  \<^verbatim>\<open>insert(t).values(vals)\<close>: refused when two of the new rows share a key, when a new
  row's key is a stored one, or when a new row refers to a row that is not there
  (\<open>refers\<close> is the table's reference check).
\<close>

definition db_insert ::
  "('r \<Rightarrow> string) \<Rightarrow> ('r \<Rightarrow> bool) \<Rightarrow> 'r list \<Rightarrow> 'r list \<Rightarrow> action_error + 'r list" where
  "db_insert key refers vals rows =
     (if distinct (map key vals) \<and> \<not> list_ex (\<lambda>v. key v \<in> set (map key rows)) vals
         \<and> list_all refers vals
      then Inr (rows @ vals)
      else Inl StoreError)"

definition db_delete :: "('r \<Rightarrow> bool) \<Rightarrow> 'r list \<Rightarrow> 'r list" where
  "db_delete cond rows = filter (\<lambda>r. \<not> cond r) rows"

text \<open>
  \<^verbatim>\<open>update(t).set(d).where(c)\<close>: \<open>refers\<close> says whether the references that \<open>d\<close> assigns
  are there; the statement is refused when a row matches and they are not. No handler
  assigns a primary key.
\<close>

definition db_update ::
  "('r \<Rightarrow> 'r) \<Rightarrow> ('r \<Rightarrow> bool) \<Rightarrow> bool \<Rightarrow> 'r list \<Rightarrow> action_error + 'r list" where
  "db_update set_data cond refers rows =
     (if list_ex cond rows \<and> \<not> refers then Inl StoreError
      else Inr (map (\<lambda>r. if cond r then set_data r else r) rows))"

text \<open>
  A key of the object given to \<^verbatim>\<open>set\<close> is not there (\<open>Unset\<close>), or it is there with a
  value that may be \<^verbatim>\<open>undefined\<close> (\<open>Assign None\<close>). The store's \<^verbatim>\<open>set\<close> passes over a key
  whose value is \<^verbatim>\<open>undefined\<close>: the column stays as it is.
\<close>

datatype 'a assign = Unset | Assign "'a option"

fun set_nullable :: "'a assign \<Rightarrow> 'a option \<Rightarrow> 'a option" where
  "set_nullable Unset old = old"
| "set_nullable (Assign None) old = old"
| "set_nullable (Assign (Some v)) old = Some v"

fun set_required :: "'a assign \<Rightarrow> 'a \<Rightarrow> 'a" where
  "set_required (Assign (Some v)) old = v"
| "set_required a old = old"

text \<open>The reference checks of the schema.\<close>

definition session_exists :: "store \<Rightarrow> string option \<Rightarrow> bool" where
  "session_exists db sessionId =
     (case sessionId of
        None \<Rightarrow> True
      | Some s \<Rightarrow> s \<in> set (map sess_id (RecipeIdeaSessions db)))"

definition recipe_exists :: "store \<Rightarrow> string \<Rightarrow> bool" where
  "recipe_exists db recipeId = (recipeId \<in> set (map rec_id (GeneratedRecipes db)))"

subsection \<open>updateRecipeIdeaSession\<close>

record session_input =
  si_id :: string
  si_title :: "string option"
  si_prompt :: "string option"
  si_cuisinePreference :: "string option"
  si_dietaryPreference :: "string option"
  si_servingCount :: "int option"

record session_updateData =
  su_title :: "string assign"
  su_prompt :: "string assign"
  su_cuisinePreference :: "string assign"
  su_dietaryPreference :: "string assign"
  su_servingCount :: "int assign"
  su_updatedAt :: "nat assign"

definition set_session :: "session_updateData \<Rightarrow> session_row \<Rightarrow> session_row" where
  "set_session d r =
     r\<lparr>sess_title := set_nullable (su_title d) (sess_title r),
       sess_prompt := set_nullable (su_prompt d) (sess_prompt r),
       sess_cuisinePreference := set_nullable (su_cuisinePreference d) (sess_cuisinePreference r),
       sess_dietaryPreference := set_nullable (su_dietaryPreference d) (sess_dietaryPreference r),
       sess_servingCount := set_nullable (su_servingCount d) (sess_servingCount r),
       sess_updatedAt := set_required (su_updatedAt d) (sess_updatedAt r)\<rparr>"

text \<open>Lines 103 to 114: a key is added only when the input's field is not \<^verbatim>\<open>undefined\<close>.\<close>

definition session_updateData_of :: "nat \<Rightarrow> session_input \<Rightarrow> session_updateData" where
  "session_updateData_of now input =
     \<lparr>su_title = (if si_title input \<noteq> None then Assign (si_title input) else Unset),
      su_prompt = (if si_prompt input \<noteq> None then Assign (si_prompt input) else Unset),
      su_cuisinePreference =
        (if si_cuisinePreference input \<noteq> None then Assign (si_cuisinePreference input) else Unset),
      su_dietaryPreference =
        (if si_dietaryPreference input \<noteq> None then Assign (si_dietaryPreference input) else Unset),
      su_servingCount =
        (if si_servingCount input \<noteq> None then Assign (si_servingCount input) else Unset),
      su_updatedAt = Assign (Some now)\<rparr>"

definition updateRecipeIdeaSession ::
  "nat \<Rightarrow> store \<Rightarrow> api_context \<Rightarrow> session_input \<Rightarrow> (action_error + string) \<times> store" where
  "updateRecipeIdeaSession now db context input =
     (case requireUser context of
        Inl e \<Rightarrow> (Inl e, db)
      | Inr u \<Rightarrow>
          let cond = db_and (db_eq sess_id (si_id input)) (db_eq sess_userId (user_id u))
          in case db_select readable_session cond (RecipeIdeaSessions db) of
               Inl e \<Rightarrow> (Inl e, db)
             | Inr existing \<Rightarrow>
                 if length existing = 0
                 then (Inl (ActionError NOT_FOUND ''Recipe idea session not found.''), db)
                 else (case db_update (set_session (session_updateData_of now input)) cond True
                              (RecipeIdeaSessions db) of
                         Inl e \<Rightarrow> (Inl e, db)
                       | Inr rows \<Rightarrow> (Inr (si_id input), db\<lparr>RecipeIdeaSessions := rows\<rparr>)))"

subsection \<open>listRecipeIdeaSessions\<close>

record list_input =
  li_page :: int
  li_pageSize :: int

record 'r list_data =
  items :: "'r list"
  total :: int
  page :: int
  pageSize :: int

definition listRecipeIdeaSessions ::
  "store \<Rightarrow> api_context \<Rightarrow> list_input \<Rightarrow> action_error + session_row list_data" where
  "listRecipeIdeaSessions db context input =
     (case requireUser context of
        Inl e \<Rightarrow> Inl e
      | Inr u \<Rightarrow>
          let offset = (li_page input - 1) * li_pageSize input
          in case db_select_page readable_session (db_eq sess_userId (user_id u)) sess_createdAt
                    (nat (li_pageSize input)) (nat offset) (RecipeIdeaSessions db) of
               Inl e \<Rightarrow> Inl e
             | Inr its \<Rightarrow>
                 Inr \<lparr>items = its, total = int (length its),
                      page = li_page input, pageSize = li_pageSize input\<rparr>)"

subsection \<open>upsertGeneratedRecipe\<close>

record ingredient_input =
  ii_id :: "string option"
  ii_orderIndex :: "int option"
  ii_name :: string
  ii_quantity :: "string option"
  ii_notes :: "string option"

record step_input =
  sti_id :: "string option"
  sti_orderIndex :: int
  sti_instruction :: string
  sti_tip :: "string option"

record recipe_input =
  ri_id :: "string option"
  ri_sessionId :: "string option"
  ri_title :: string
  ri_description :: "string option"
  ri_cuisine :: "string option"
  ri_mealType :: "string option"
  ri_tags :: "string option"
  ri_servings :: "int option"
  ri_prepTimeMinutes :: "int option"
  ri_cookTimeMinutes :: "int option"
  ri_notes :: "string option"
  ri_isFavorite :: "bool option"
  ri_ingredients :: "ingredient_input list option"
  ri_steps :: "step_input list option"

text \<open>
  \<^verbatim>\<open>if (s)\<close> on an optional string: \<^verbatim>\<open>undefined\<close> and the empty string are both falsy.
\<close>

fun truthy :: "string option \<Rightarrow> bool" where
  "truthy None = False"
| "truthy (Some s) = (s \<noteq> [])"

record recipe_updateData =
  ru_sessionId :: "string assign"
  ru_title :: "string assign"
  ru_description :: "string assign"
  ru_cuisine :: "string assign"
  ru_mealType :: "string assign"
  ru_tags :: "string assign"
  ru_servings :: "int assign"
  ru_prepTimeMinutes :: "int assign"
  ru_cookTimeMinutes :: "int assign"
  ru_notes :: "string assign"
  ru_isFavorite :: "bool assign"
  ru_updatedAt :: "nat assign"

definition set_recipe :: "recipe_updateData \<Rightarrow> recipe_row \<Rightarrow> recipe_row" where
  "set_recipe d r =
     r\<lparr>rec_sessionId := set_nullable (ru_sessionId d) (rec_sessionId r),
       rec_title := set_required (ru_title d) (rec_title r),
       rec_description := set_nullable (ru_description d) (rec_description r),
       rec_cuisine := set_nullable (ru_cuisine d) (rec_cuisine r),
       rec_mealType := set_nullable (ru_mealType d) (rec_mealType r),
       rec_tags := set_nullable (ru_tags d) (rec_tags r),
       rec_servings := set_nullable (ru_servings d) (rec_servings r),
       rec_prepTimeMinutes := set_nullable (ru_prepTimeMinutes d) (rec_prepTimeMinutes r),
       rec_cookTimeMinutes := set_nullable (ru_cookTimeMinutes d) (rec_cookTimeMinutes r),
       rec_notes := set_nullable (ru_notes d) (rec_notes r),
       rec_isFavorite := set_required (ru_isFavorite d) (rec_isFavorite r),
       rec_updatedAt := set_required (ru_updatedAt d) (rec_updatedAt r)\<rparr>"

text \<open>The session that an update object assigns, if it assigns one.\<close>

definition assigned_session :: "recipe_updateData \<Rightarrow> string option" where
  "assigned_session d = (case ru_sessionId d of Unset \<Rightarrow> None | Assign v \<Rightarrow> v)"

text \<open>Lines 222 to 236.\<close>

definition recipe_updateData_of :: "nat \<Rightarrow> recipe_input \<Rightarrow> recipe_updateData" where
  "recipe_updateData_of now input =
     \<lparr>ru_sessionId = (if ri_sessionId input \<noteq> None then Assign (ri_sessionId input) else Unset),
      ru_title = Assign (Some (ri_title input)),
      ru_description = Assign (ri_description input),
      ru_cuisine = Assign (ri_cuisine input),
      ru_mealType = Assign (ri_mealType input),
      ru_tags = Assign (ri_tags input),
      ru_servings = Assign (ri_servings input),
      ru_prepTimeMinutes = Assign (ri_prepTimeMinutes input),
      ru_cookTimeMinutes = Assign (ri_cookTimeMinutes input),
      ru_notes = Assign (ri_notes input),
      ru_isFavorite = (if ri_isFavorite input \<noteq> None then Assign (ri_isFavorite input) else Unset),
      ru_updatedAt = Assign (Some now)\<rparr>"

text \<open>Lines 248 to 264: the row of the create path.\<close>

definition recipe_values :: "string \<Rightarrow> string \<Rightarrow> nat \<Rightarrow> recipe_input \<Rightarrow> recipe_row" where
  "recipe_values recipeId userId now input =
     \<lparr>rec_id = recipeId,
      rec_sessionId = ri_sessionId input,
      rec_userId = userId,
      rec_title = ri_title input,
      rec_description = ri_description input,
      rec_cuisine = ri_cuisine input,
      rec_mealType = ri_mealType input,
      rec_tags = ri_tags input,
      rec_servings = ri_servings input,
      rec_prepTimeMinutes = ri_prepTimeMinutes input,
      rec_cookTimeMinutes = ri_cookTimeMinutes input,
      rec_notes = ri_notes input,
      rec_isFavorite = (case ri_isFavorite input of None \<Rightarrow> False | Some b \<Rightarrow> b),
      rec_createdAt = now,
      rec_updatedAt = now\<rparr>"

text \<open>
  Lines 274 to 282 and 294 to 301: \<^verbatim>\<open>map\<close> runs over the array from left to right, and
  \<^verbatim>\<open>randomUUID()\<close> is called for the elements that bring no identifier. The second
  component is the number of calls of the generator afterwards.
\<close>

fun ingredient_values ::
  "(nat \<Rightarrow> string) \<Rightarrow> string \<Rightarrow> nat \<Rightarrow> ingredient_input list \<Rightarrow> nat \<Rightarrow> ingredient_row list \<times> nat" where
  "ingredient_values uuid recipeId now [] n = ([], n)"
| "ingredient_values uuid recipeId now (x # xs) n =
     (let (i, n1) = (case ii_id x of Some v \<Rightarrow> (v, n) | None \<Rightarrow> (uuid n, Suc n));
          (rows, n2) = ingredient_values uuid recipeId now xs n1
      in (\<lparr>ing_id = i, ing_recipeId = recipeId, ing_orderIndex = ii_orderIndex x,
            ing_name = ii_name x, ing_quantity = ii_quantity x, ing_notes = ii_notes x,
            ing_createdAt = now\<rparr> # rows, n2))"

fun step_values ::
  "(nat \<Rightarrow> string) \<Rightarrow> string \<Rightarrow> nat \<Rightarrow> step_input list \<Rightarrow> nat \<Rightarrow> step_row list \<times> nat" where
  "step_values uuid recipeId now [] n = ([], n)"
| "step_values uuid recipeId now (x # xs) n =
     (let (i, n1) = (case sti_id x of Some v \<Rightarrow> (v, n) | None \<Rightarrow> (uuid n, Suc n));
          (rows, n2) = step_values uuid recipeId now xs n1
      in (\<lparr>step_id = i, step_recipeId = recipeId, step_orderIndex = sti_orderIndex x,
            step_instruction = sti_instruction x, step_tip = sti_tip x,
            step_createdAt = now\<rparr> # rows, n2))"

text \<open>
  Lines 267 to 285. An array, also an empty one, is truthy. The delete is a statement of
  its own: it stays when the insert after it is refused.
\<close>

definition replace_ingredients ::
  "(nat \<Rightarrow> string) \<Rightarrow> string \<Rightarrow> nat \<Rightarrow> ingredient_input list option \<Rightarrow> store
     \<Rightarrow> (action_error + unit) \<times> store" where
  "replace_ingredients uuid recipeId now ingredients db =
     (case ingredients of
        None \<Rightarrow> (Inr (), db)
      | Some xs \<Rightarrow>
          let db1 = db\<lparr>GeneratedRecipeIngredients :=
                        db_delete (db_eq ing_recipeId recipeId) (GeneratedRecipeIngredients db)\<rparr>
          in if length xs > 0
             then let (rows, n) = ingredient_values uuid recipeId now xs (uuid_calls db1);
                      db2 = db1\<lparr>uuid_calls := n\<rparr>
                  in case db_insert ing_id (\<lambda>r. recipe_exists db2 (ing_recipeId r)) rows
                            (GeneratedRecipeIngredients db2) of
                       Inl e \<Rightarrow> (Inl e, db2)
                     | Inr table \<Rightarrow> (Inr (), db2\<lparr>GeneratedRecipeIngredients := table\<rparr>)
             else (Inr (), db1))"

text \<open>Lines 287 to 304.\<close>

definition replace_steps ::
  "(nat \<Rightarrow> string) \<Rightarrow> string \<Rightarrow> nat \<Rightarrow> step_input list option \<Rightarrow> store
     \<Rightarrow> (action_error + unit) \<times> store" where
  "replace_steps uuid recipeId now steps db =
     (case steps of
        None \<Rightarrow> (Inr (), db)
      | Some xs \<Rightarrow>
          let db1 = db\<lparr>GeneratedRecipeSteps :=
                        db_delete (db_eq step_recipeId recipeId) (GeneratedRecipeSteps db)\<rparr>
          in if length xs > 0
             then let (rows, n) = step_values uuid recipeId now xs (uuid_calls db1);
                      db2 = db1\<lparr>uuid_calls := n\<rparr>
                  in case db_insert step_id (\<lambda>r. recipe_exists db2 (step_recipeId r)) rows
                            (GeneratedRecipeSteps db2) of
                       Inl e \<Rightarrow> (Inl e, db2)
                     | Inr table \<Rightarrow> (Inr (), db2\<lparr>GeneratedRecipeSteps := table\<rparr>)
             else (Inr (), db1))"

text \<open>Lines 267 to 309: the two arrays, then the answer.\<close>

definition replace_children ::
  "(nat \<Rightarrow> string) \<Rightarrow> string \<Rightarrow> nat \<Rightarrow> recipe_input \<Rightarrow> store
     \<Rightarrow> (action_error + string) \<times> store" where
  "replace_children uuid recipeId now input db =
     (case replace_ingredients uuid recipeId now (ri_ingredients input) db of
        (Inl e, db1) \<Rightarrow> (Inl e, db1)
      | (Inr _, db1) \<Rightarrow>
          (case replace_steps uuid recipeId now (ri_steps input) db1 of
             (Inl e, db2) \<Rightarrow> (Inl e, db2)
           | (Inr _, db2) \<Rightarrow> (Inr recipeId, db2)))"

text \<open>
  Lines 183 to 200: the session is looked up only when \<^verbatim>\<open>input.sessionId\<close> is truthy.
  \<open>Inr ()\<close> says that the handler goes on.
\<close>

definition session_check :: "store \<Rightarrow> app_user \<Rightarrow> string option \<Rightarrow> action_error + unit" where
  "session_check db u sessionId =
     (if truthy sessionId
      then case db_select readable_session
                  (db_and (db_eq sess_id (the sessionId)) (db_eq sess_userId (user_id u)))
                  (RecipeIdeaSessions db) of
             Inl e \<Rightarrow> Inl e
           | Inr session \<Rightarrow>
               if length session = 0
               then Inl (ActionError NOT_FOUND ''Linked recipe idea session not found.'')
               else Inr ()
      else Inr ())"

definition upsertGeneratedRecipe ::
  "(nat \<Rightarrow> string) \<Rightarrow> nat \<Rightarrow> store \<Rightarrow> api_context \<Rightarrow> recipe_input
     \<Rightarrow> (action_error + string) \<times> store" where
  "upsertGeneratedRecipe uuid now db context input =
     (case requireUser context of
        Inl e \<Rightarrow> (Inl e, db)
      | Inr u \<Rightarrow>
          (case session_check db u (ri_sessionId input) of
             Inl e \<Rightarrow> (Inl e, db)
           | Inr _ \<Rightarrow>
               let (recipeId, db1) =
                     (case ri_id input of Some v \<Rightarrow> (v, db) | None \<Rightarrow> randomUUID uuid db)
               in if truthy (ri_id input)
                  then
                    let cond = db_and (db_eq rec_id recipeId) (db_eq rec_userId (user_id u))
                    in case db_select readable_recipe cond (GeneratedRecipes db1) of
                         Inl e \<Rightarrow> (Inl e, db1)
                       | Inr existing \<Rightarrow>
                           if length existing = 0
                           then (Inl (ActionError NOT_FOUND ''Generated recipe not found.''), db1)
                           else
                             let updateData = recipe_updateData_of now input
                             in case db_update (set_recipe updateData) cond
                                       (session_exists db1 (assigned_session updateData))
                                       (GeneratedRecipes db1) of
                                  Inl e \<Rightarrow> (Inl e, db1)
                                | Inr rows \<Rightarrow>
                                    replace_children uuid recipeId now input
                                      (db1\<lparr>GeneratedRecipes := rows\<rparr>)
                  else
                    case db_insert rec_id (\<lambda>r. session_exists db1 (rec_sessionId r))
                           [recipe_values recipeId (user_id u) now input]
                           (GeneratedRecipes db1) of
                      Inl e \<Rightarrow> (Inl e, db1)
                    | Inr rows \<Rightarrow>
                        replace_children uuid recipeId now input
                          (db1\<lparr>GeneratedRecipes := rows\<rparr>)))"

subsection \<open>listGeneratedRecipes\<close>

record recipe_list_input =
  lg_page :: int
  lg_pageSize :: int
  lg_sessionId :: "string option"
  lg_favoritesOnly :: "bool option"

text \<open>Lines 324 to 332: the condition grows by one conjunct for each truthy filter.\<close>

definition recipe_filters :: "app_user \<Rightarrow> recipe_list_input \<Rightarrow> recipe_row \<Rightarrow> bool" where
  "recipe_filters u input =
     (let filters = db_eq rec_userId (user_id u);
          filters = (if truthy (lg_sessionId input)
                     then db_and filters (db_eq rec_sessionId (lg_sessionId input))
                     else filters);
          filters = (if lg_favoritesOnly input = Some True
                     then db_and filters (db_eq rec_isFavorite True)
                     else filters)
      in filters)"

definition listGeneratedRecipes ::
  "store \<Rightarrow> api_context \<Rightarrow> recipe_list_input \<Rightarrow> action_error + recipe_row list_data" where
  "listGeneratedRecipes db context input =
     (case requireUser context of
        Inl e \<Rightarrow> Inl e
      | Inr u \<Rightarrow>
          let offset = (lg_page input - 1) * lg_pageSize input
          in case db_select_page readable_recipe (recipe_filters u input) rec_createdAt
                    (nat (lg_pageSize input)) (nat offset) (GeneratedRecipes db) of
               Inl e \<Rightarrow> Inl e
             | Inr its \<Rightarrow>
                 Inr \<lparr>items = its, total = int (length its),
                      page = lg_page input, pageSize = lg_pageSize input\<rparr>)"

subsection \<open>Validated inputs\<close>

text \<open>
  The framework parses the input with the action's schema before the handler runs; the
  handlers above receive the parsed value. These are the numeric bounds of the two list
  schemas (lines 134 to 137 and 314 to 319). \<open>exact_offset\<close> says that the offset of a
  page is a safe integer: the handler's arithmetic is then exact and the store takes the
  offset.
\<close>

definition valid_list_input :: "list_input \<Rightarrow> bool" where
  "valid_list_input input =
     (1 \<le> li_page input \<and> 1 \<le> li_pageSize input \<and> li_pageSize input \<le> 100)"

definition valid_recipe_list_input :: "recipe_list_input \<Rightarrow> bool" where
  "valid_recipe_list_input input =
     (1 \<le> lg_page input \<and> 1 \<le> lg_pageSize input \<and> lg_pageSize input \<le> 100)"

definition exact_offset :: "int \<Rightarrow> int \<Rightarrow> bool" where
  "exact_offset p n = ((p - 1) * n \<le> 9007199254740991)"

subsection \<open>What a successful update leaves in a row\<close>

text \<open>
  \<open>session_after now input r r'\<close>: the row \<open>r'\<close> is the row \<open>r\<close> with the fields that
  the input brings, the update time \<open>now\<close>, and everything else as it was.
\<close>

definition session_after :: "nat \<Rightarrow> session_input \<Rightarrow> session_row \<Rightarrow> session_row \<Rightarrow> bool" where
  "session_after now input r r' =
     (sess_id r' = sess_id r \<and> sess_userId r' = sess_userId r
      \<and> sess_createdAt r' = sess_createdAt r
      \<and> sess_updatedAt r' = now
      \<and> sess_title r' = (case si_title input of None \<Rightarrow> sess_title r | Some v \<Rightarrow> Some v)
      \<and> sess_prompt r' = (case si_prompt input of None \<Rightarrow> sess_prompt r | Some v \<Rightarrow> Some v)
      \<and> sess_cuisinePreference r' =
          (case si_cuisinePreference input of None \<Rightarrow> sess_cuisinePreference r | Some v \<Rightarrow> Some v)
      \<and> sess_dietaryPreference r' =
          (case si_dietaryPreference input of None \<Rightarrow> sess_dietaryPreference r | Some v \<Rightarrow> Some v)
      \<and> sess_servingCount r' =
          (case si_servingCount input of None \<Rightarrow> sess_servingCount r | Some v \<Rightarrow> Some v))"

subsection \<open>What the list handlers return\<close>

text \<open>
  \<open>page_slice p n\<close> is page \<open>p\<close> of pages of \<open>n\<close> rows. \<open>recipe_listed\<close> is the
  condition on a recipe row that the handler applies; \<open>recipe_listed_as_claimed\<close> applies
  the session condition whenever a \<^verbatim>\<open>sessionId\<close> is provided.
\<close>

definition page_slice :: "nat \<Rightarrow> nat \<Rightarrow> 'r list \<Rightarrow> 'r list" where
  "page_slice p n rows = take n (drop ((p - 1) * n) rows)"

definition session_listed :: "app_user \<Rightarrow> session_row \<Rightarrow> bool" where
  "session_listed u r = (sess_userId r = user_id u)"

definition recipe_listed :: "app_user \<Rightarrow> recipe_list_input \<Rightarrow> recipe_row \<Rightarrow> bool" where
  "recipe_listed u input r =
     (rec_userId r = user_id u
      \<and> (case lg_sessionId input of
            None \<Rightarrow> True
          | Some s \<Rightarrow> if s = [] then True else rec_sessionId r = Some s)
      \<and> (if lg_favoritesOnly input = Some True then rec_isFavorite r else True))"

definition recipe_listed_as_claimed :: "app_user \<Rightarrow> recipe_list_input \<Rightarrow> recipe_row \<Rightarrow> bool" where
  "recipe_listed_as_claimed u input r =
     (rec_userId r = user_id u
      \<and> (case lg_sessionId input of None \<Rightarrow> True | Some s \<Rightarrow> rec_sessionId r = Some s)
      \<and> (if lg_favoritesOnly input = Some True then rec_isFavorite r else True))"

subsection \<open>What a successful upsert leaves in the tables\<close>



definition missing_ids :: "string option list \<Rightarrow> nat" where
  "missing_ids ids = length (filter (\<lambda>i. i = None) ids)"



text \<open>
  The conditions under which the store takes every statement of an upsert.
  \<^item> \<open>session_found\<close>: no session is given, or a non-empty one that names a session of
    the user, readable.
  \<^item> \<open>recipe_found\<close>: a non-empty identifier that names a recipe of the user, readable.
  \<^item> \<open>recipe_target\<close>: that, or no identifier and a generated one that no recipe has.
  \<^item> \<open>keys_free new stored\<close>: the new keys differ from each other and from the stored
    ones.
  \<^item> \<open>children_accepted\<close>: the identifiers of the new ingredient rows are free among the
    ingredients of other recipes, and the same for the steps; \<open>n\<close> calls of the generator
    were made before the ingredients.
\<close>

definition session_found :: "store \<Rightarrow> app_user \<Rightarrow> string option \<Rightarrow> bool" where
  "session_found db u sessionId =
     (case sessionId of
        None \<Rightarrow> True
      | Some s \<Rightarrow>
          s \<noteq> []
          \<and> list_ex (\<lambda>r. sess_id r = s \<and> sess_userId r = user_id u) (RecipeIdeaSessions db)
          \<and> list_all readable_session
               (filter (\<lambda>r. sess_id r = s \<and> sess_userId r = user_id u) (RecipeIdeaSessions db)))"










section \<open>Example data\<close>

definition alice :: app_user where
  "alice = \<lparr>user_id = ''alice''\<rparr>"

definition alice_context :: api_context where
  "alice_context = \<lparr>locals = Some \<lparr>user = Some alice\<rparr>\<rparr>"

definition bob_session :: session_row where
  "bob_session =
     \<lparr>sess_id = ''s-bob'', sess_userId = ''bob'', sess_title = Some ''Soups'',
      sess_prompt = None, sess_cuisinePreference = None, sess_dietaryPreference = None,
      sess_servingCount = None, sess_createdAt = 5, sess_updatedAt = 5\<rparr>"

definition alice_session :: session_row where
  "alice_session =
     \<lparr>sess_id = ''s-alice'', sess_userId = ''alice'', sess_title = Some ''Quick dinners'',
      sess_prompt = Some ''fast'', sess_cuisinePreference = None,
      sess_dietaryPreference = Some ''vegan'', sess_servingCount = Some 2,
      sess_createdAt = 7, sess_updatedAt = 7\<rparr>"

definition sessions_db :: store where
  "sessions_db =
     \<lparr>RecipeIdeaSessions = [bob_session, alice_session], GeneratedRecipes = [],
      GeneratedRecipeIngredients = [], GeneratedRecipeSteps = [], uuid_calls = 0\<rparr>"

definition title_only :: "string \<Rightarrow> session_input" where
  "title_only i =
     \<lparr>si_id = i, si_title = Some ''Mine'', si_prompt = None, si_cuisinePreference = None,
      si_dietaryPreference = None, si_servingCount = None\<rparr>"

definition sessions_db_after :: store where
  "sessions_db_after =
     sessions_db\<lparr>RecipeIdeaSessions :=
       [bob_session, alice_session\<lparr>sess_title := Some ''Mine'', sess_updatedAt := 9\<rparr>]\<rparr>"

definition recipe_of :: "string \<Rightarrow> string \<Rightarrow> string option \<Rightarrow> bool \<Rightarrow> nat \<Rightarrow> recipe_row" where
  "recipe_of i owner s fav t =
     \<lparr>rec_id = i, rec_sessionId = s, rec_userId = owner, rec_title = ''Pasta'',
      rec_description = Some ''plain'', rec_cuisine = None, rec_mealType = None, rec_tags = None,
      rec_servings = Some 2, rec_prepTimeMinutes = None, rec_cookTimeMinutes = None,
      rec_notes = None, rec_isFavorite = fav, rec_createdAt = t, rec_updatedAt = t\<rparr>"

definition list_db :: store where
  "list_db =
     \<lparr>RecipeIdeaSessions =
        [alice_session, bob_session,
         alice_session\<lparr>sess_id := ''s-alice-0'', sess_createdAt := 3\<rparr>],
      GeneratedRecipes =
        [recipe_of ''r1'' ''alice'' None True 30,
         recipe_of ''r2'' ''alice'' (Some ''s-alice'') False 10,
         recipe_of ''r3'' ''bob'' (Some ''s-bob'') True 20],
      GeneratedRecipeIngredients = [], GeneratedRecipeSteps = [], uuid_calls = 0\<rparr>"

definition recipes_page :: "string option \<Rightarrow> bool option \<Rightarrow> recipe_list_input" where
  "recipes_page s f = \<lparr>lg_page = 1, lg_pageSize = 20, lg_sessionId = s, lg_favoritesOnly = f\<rparr>"

definition sessions_page :: "int \<Rightarrow> int \<Rightarrow> list_input" where
  "sessions_page p n = \<lparr>li_page = p, li_pageSize = n\<rparr>"

definition empty_db :: store where
  "empty_db =
     \<lparr>RecipeIdeaSessions = [], GeneratedRecipes = [], GeneratedRecipeIngredients = [],
      GeneratedRecipeSteps = [], uuid_calls = 0\<rparr>"

definition test_uuid :: "nat \<Rightarrow> string" where
  "test_uuid n =
     (if n = 0 then ''uuid-0'' else if n = 1 then ''uuid-1'' else if n = 2 then ''uuid-2''
      else if n = 3 then ''uuid-3'' else if n = 4 then ''uuid-4'' else if n = 5 then ''uuid-5''
      else if n = 6 then ''uuid-6'' else ''uuid-'' @ replicate n CHR ''i'')"

definition pasta :: "string option \<Rightarrow> string option \<Rightarrow> recipe_input" where
  "pasta i s =
     \<lparr>ri_id = i, ri_sessionId = s, ri_title = ''Pasta'', ri_description = None,
      ri_cuisine = Some ''italian'', ri_mealType = None, ri_tags = None, ri_servings = None,
      ri_prepTimeMinutes = None, ri_cookTimeMinutes = None, ri_notes = None,
      ri_isFavorite = None, ri_ingredients = None, ri_steps = None\<rparr>"

definition flour :: ingredient_input where
  "flour =
     \<lparr>ii_id = None, ii_orderIndex = Some 0, ii_name = ''Flour'', ii_quantity = Some ''200 g'',
      ii_notes = None\<rparr>"

definition egg :: ingredient_input where
  "egg =
     \<lparr>ii_id = Some ''i-egg'', ii_orderIndex = None, ii_name = ''Egg'', ii_quantity = None,
      ii_notes = Some ''beaten''\<rparr>"

definition boil :: step_input where
  "boil = \<lparr>sti_id = None, sti_orderIndex = 1, sti_instruction = ''Boil water'', sti_tip = None\<rparr>"

definition drain :: step_input where
  "drain =
     \<lparr>sti_id = Some ''st-drain'', sti_orderIndex = 2, sti_instruction = ''Drain'',
      sti_tip = Some ''keep a cup''\<rparr>"

definition ingredient_of :: "string \<Rightarrow> string \<Rightarrow> string \<Rightarrow> ingredient_row" where
  "ingredient_of i r name =
     \<lparr>ing_id = i, ing_recipeId = r, ing_orderIndex = None, ing_name = name,
      ing_quantity = None, ing_notes = None, ing_createdAt = 30\<rparr>"

definition step_of :: "string \<Rightarrow> string \<Rightarrow> string \<Rightarrow> step_row" where
  "step_of i r text =
     \<lparr>step_id = i, step_recipeId = r, step_orderIndex = 1, step_instruction = text,
      step_tip = None, step_createdAt = 30\<rparr>"

definition kitchen_db :: store where
  "kitchen_db =
     \<lparr>RecipeIdeaSessions = [alice_session, bob_session],
      GeneratedRecipes =
        [recipe_of ''r1'' ''alice'' None True 30, recipe_of ''r3'' ''bob'' (Some ''s-bob'') True 20],
      GeneratedRecipeIngredients =
        [ingredient_of ''i1'' ''r1'' ''Salt'', ingredient_of ''i2'' ''r3'' ''Rice''],
      GeneratedRecipeSteps = [step_of ''st1'' ''r1'' ''Boil water''],
      uuid_calls = 4\<rparr>"








section \<open>Properties\<close>

lemmas fixture_defs = alice_def alice_context_def bob_session_def alice_session_def
  sessions_db_def title_only_def

lemma requireUser_alice: "requireUser alice_context = Inr alice"
  by (simp add: requireUser_def alice_context_def)

lemma cond_eq: "db_and (db_eq f a) (db_eq g b) = (\<lambda>r. f r = a \<and> g r = b)"
  by (rule ext) (simp add: db_and_def db_eq_def)

lemma select_empty:
  "(\<forall>r \<in> set rows. f r = a \<longrightarrow> g r \<noteq> b) \<Longrightarrow>
   db_select readable (db_and (db_eq f a) (db_eq g b)) rows = Inr []"
  by (auto simp: db_select_def filter_empty_conv db_and_def db_eq_def Let_def)

lemma select_found:
  "list_all readable (filter cond rows) \<Longrightarrow> db_select readable cond rows = Inr (filter cond rows)"
  by (simp add: db_select_def Let_def)

lemma select_Inr: "db_select readable cond rows = Inr found \<Longrightarrow> found = filter cond rows"
  by (simp add: db_select_def Let_def split: if_splits)

lemmas eval_defs = requireUser_def db_select_page_def db_select_def db_eq_def db_and_def
  db_update_def db_insert_def db_delete_def Let_def safe_integer_def readable_session_def
  readable_recipe_def session_exists_def recipe_exists_def assigned_session_def

subsection \<open>updateRecipeIdeaSession\<close>

text \<open>
  Claim C6. A signed-in caller updates a session whose identifier no row carries, or
  only rows of other users carry: the handler raises NOT_FOUND, with the same code and
  message in both cases, and the store is what it was.
\<close>

theorem updateRecipeIdeaSession_not_found:
  assumes "requireUser context = Inr u"
    and "\<forall>r \<in> set (RecipeIdeaSessions db). sess_id r = si_id input \<longrightarrow> sess_userId r \<noteq> user_id u"
  shows "updateRecipeIdeaSession now db context input =
           (Inl (ActionError NOT_FOUND ''Recipe idea session not found.''), db)"
  using assms by (simp add: updateRecipeIdeaSession_def select_empty)

theorem updateRecipeIdeaSession_not_found_witness:
  "requireUser alice_context = Inr alice
   \<and> \<not> (\<exists>r \<in> set (RecipeIdeaSessions sessions_db).
          sess_id r = ''s-bob'' \<and> sess_userId r = user_id alice)
   \<and> \<not> (\<exists>r \<in> set (RecipeIdeaSessions sessions_db). sess_id r = ''s-nobody'')
   \<and> updateRecipeIdeaSession 9 sessions_db alice_context (title_only ''s-bob'') =
       (Inl (ActionError NOT_FOUND ''Recipe idea session not found.''), sessions_db)
   \<and> updateRecipeIdeaSession 9 sessions_db alice_context (title_only ''s-nobody'') =
       (Inl (ActionError NOT_FOUND ''Recipe idea session not found.''), sessions_db)"
proof -
  have a: "\<forall>r \<in> set (RecipeIdeaSessions sessions_db).
         sess_id r = si_id (title_only ''s-bob'') \<longrightarrow> sess_userId r \<noteq> user_id alice"
    by (simp add: fixture_defs)
  have b: "\<forall>r \<in> set (RecipeIdeaSessions sessions_db).
         sess_id r = si_id (title_only ''s-nobody'') \<longrightarrow> sess_userId r \<noteq> user_id alice"
    by (simp add: fixture_defs)
  have c: "\<not> (\<exists>r \<in> set (RecipeIdeaSessions sessions_db).
          sess_id r = ''s-bob'' \<and> sess_userId r = user_id alice)"
    and d: "\<not> (\<exists>r \<in> set (RecipeIdeaSessions sessions_db). sess_id r = ''s-nobody'')"
    by (simp_all add: fixture_defs)
  show ?thesis
    using c d updateRecipeIdeaSession_not_found [OF requireUser_alice a]
      updateRecipeIdeaSession_not_found [OF requireUser_alice b] requireUser_alice
    by simp
qed

lemma updateRecipeIdeaSession_Inr:
  assumes "updateRecipeIdeaSession now db context input = (Inr i, db')"
  obtains u where "requireUser context = Inr u"
    and "i = si_id input"
    and "db' = db\<lparr>RecipeIdeaSessions :=
            map (\<lambda>r. if sess_id r = si_id input \<and> sess_userId r = user_id u
                      then set_session (session_updateData_of now input) r else r)
              (RecipeIdeaSessions db)\<rparr>"
    and "\<exists>r \<in> set (RecipeIdeaSessions db). sess_id r = si_id input \<and> sess_userId r = user_id u"
proof (cases "requireUser context")
  case (Inl e)
  with assms show ?thesis by (simp add: updateRecipeIdeaSession_def)
next
  case (Inr u)
  let ?cond = "\<lambda>r. sess_id r = si_id input \<and> sess_userId r = user_id u"
  from assms Inr obtain existing where
    sel: "db_select readable_session ?cond (RecipeIdeaSessions db) = Inr existing"
    by (cases "db_select readable_session ?cond (RecipeIdeaSessions db)")
       (auto simp: updateRecipeIdeaSession_def cond_eq)
  from select_Inr [OF sel] have ex: "existing = filter ?cond (RecipeIdeaSessions db)" .
  from assms Inr sel have ne: "existing \<noteq> []"
    by (auto simp: updateRecipeIdeaSession_def cond_eq)
  with ex have found: "\<exists>r \<in> set (RecipeIdeaSessions db). ?cond r"
    by (auto simp: filter_empty_conv)
  from assms Inr sel ne have "i = si_id input"
    and "db' = db\<lparr>RecipeIdeaSessions :=
            map (\<lambda>r. if ?cond r then set_session (session_updateData_of now input) r else r)
              (RecipeIdeaSessions db)\<rparr>"
    by (auto simp: updateRecipeIdeaSession_def cond_eq db_update_def)
  with Inr found show ?thesis by (intro that [of u]) auto
qed

lemma set_session_fields:
  "set_session (session_updateData_of now input) r =
     r\<lparr>sess_title := (case si_title input of None \<Rightarrow> sess_title r | Some v \<Rightarrow> Some v),
       sess_prompt := (case si_prompt input of None \<Rightarrow> sess_prompt r | Some v \<Rightarrow> Some v),
       sess_cuisinePreference :=
         (case si_cuisinePreference input of None \<Rightarrow> sess_cuisinePreference r | Some v \<Rightarrow> Some v),
       sess_dietaryPreference :=
         (case si_dietaryPreference input of None \<Rightarrow> sess_dietaryPreference r | Some v \<Rightarrow> Some v),
       sess_servingCount :=
         (case si_servingCount input of None \<Rightarrow> sess_servingCount r | Some v \<Rightarrow> Some v),
       sess_updatedAt := now\<rparr>"
  by (simp add: set_session_def session_updateData_of_def split: option.splits)

text \<open>
  Claim C3. After a successful update by the signed-in user \<open>u\<close>, the sessions table has
  the same rows in the same places; a row with the input's identifier that \<open>u\<close> owns (there
  is one) has the fields the input brings and the update time \<open>now\<close>, and keeps its
  identifier, owner, creation time and every field the input leaves out; every other
  row, and every other table, is as before.
\<close>

theorem updateRecipeIdeaSession_partial_update:
  assumes "requireUser context = Inr u"
    and "updateRecipeIdeaSession now db context input = (Inr i, db')"
  shows "length (RecipeIdeaSessions db') = length (RecipeIdeaSessions db)
     \<and> (\<forall>k < length (RecipeIdeaSessions db).
          if sess_id (RecipeIdeaSessions db ! k) = si_id input
             \<and> sess_userId (RecipeIdeaSessions db ! k) = user_id u
          then session_after now input (RecipeIdeaSessions db ! k) (RecipeIdeaSessions db' ! k)
          else RecipeIdeaSessions db' ! k = RecipeIdeaSessions db ! k)
     \<and> (\<exists>r \<in> set (RecipeIdeaSessions db). sess_id r = si_id input \<and> sess_userId r = user_id u)
     \<and> GeneratedRecipes db' = GeneratedRecipes db
     \<and> GeneratedRecipeIngredients db' = GeneratedRecipeIngredients db
     \<and> GeneratedRecipeSteps db' = GeneratedRecipeSteps db"
proof -
  from assms(2) obtain u' where u': "requireUser context = Inr u'"
    and db': "db' = db\<lparr>RecipeIdeaSessions :=
            map (\<lambda>r. if sess_id r = si_id input \<and> sess_userId r = user_id u'
                      then set_session (session_updateData_of now input) r else r)
              (RecipeIdeaSessions db)\<rparr>"
    and ex': "\<exists>r \<in> set (RecipeIdeaSessions db). sess_id r = si_id input \<and> sess_userId r = user_id u'"
    by (rule updateRecipeIdeaSession_Inr)
  from u' assms(1) have [simp]: "u' = u" by simp
  have rows: "\<forall>k < length (RecipeIdeaSessions db).
          if sess_id (RecipeIdeaSessions db ! k) = si_id input
             \<and> sess_userId (RecipeIdeaSessions db ! k) = user_id u
          then session_after now input (RecipeIdeaSessions db ! k) (RecipeIdeaSessions db' ! k)
          else RecipeIdeaSessions db' ! k = RecipeIdeaSessions db ! k"
    by (simp add: db' set_session_fields session_after_def)
  show ?thesis
    using ex' rows by (simp add: db')
qed

theorem updateRecipeIdeaSession_partial_update_witness:
  "requireUser alice_context = Inr alice
   \<and> updateRecipeIdeaSession 9 sessions_db alice_context (title_only ''s-alice'')
       = (Inr ''s-alice'', sessions_db_after)
   \<and> RecipeIdeaSessions sessions_db_after ! 0 = bob_session
   \<and> session_after 9 (title_only ''s-alice'') alice_session (RecipeIdeaSessions sessions_db_after ! 1)
   \<and> sess_prompt (RecipeIdeaSessions sessions_db_after ! 1) = Some ''fast''
   \<and> sess_title (RecipeIdeaSessions sessions_db_after ! 1) = Some ''Mine''"
proof -
  have ev: "updateRecipeIdeaSession 9 sessions_db alice_context (title_only ''s-alice'')
       = (Inr ''s-alice'', sessions_db_after)"
    by (simp add: updateRecipeIdeaSession_def eval_defs set_session_fields
        sessions_db_after_def fixture_defs)
  have "\<forall>k < length (RecipeIdeaSessions sessions_db).
          if sess_id (RecipeIdeaSessions sessions_db ! k) = si_id (title_only ''s-alice'')
             \<and> sess_userId (RecipeIdeaSessions sessions_db ! k) = user_id alice
          then session_after 9 (title_only ''s-alice'') (RecipeIdeaSessions sessions_db ! k)
                 (RecipeIdeaSessions sessions_db_after ! k)
          else RecipeIdeaSessions sessions_db_after ! k = RecipeIdeaSessions sessions_db ! k"
    using updateRecipeIdeaSession_partial_update [OF requireUser_alice ev] by blast
  then have all: "\<And>k. k < length (RecipeIdeaSessions sessions_db) \<Longrightarrow>
          (if sess_id (RecipeIdeaSessions sessions_db ! k) = si_id (title_only ''s-alice'')
             \<and> sess_userId (RecipeIdeaSessions sessions_db ! k) = user_id alice
          then session_after 9 (title_only ''s-alice'') (RecipeIdeaSessions sessions_db ! k)
                 (RecipeIdeaSessions sessions_db_after ! k)
          else RecipeIdeaSessions sessions_db_after ! k = RecipeIdeaSessions sessions_db ! k)"
    by blast
  have "0 < length (RecipeIdeaSessions sessions_db)" and "1 < length (RecipeIdeaSessions sessions_db)"
    by (simp_all add: sessions_db_def)
  from all [OF this(1)] all [OF this(2)]
  have "RecipeIdeaSessions sessions_db_after ! 0 = bob_session
     \<and> session_after 9 (title_only ''s-alice'') alice_session (RecipeIdeaSessions sessions_db_after ! 1)"
    by (simp add: fixture_defs)
  then show ?thesis
    using ev requireUser_alice by (simp add: session_after_def fixture_defs)
qed

subsection \<open>The list handlers\<close>

lemmas list_fixture_defs = fixture_defs recipe_of_def list_db_def recipes_page_def
  sessions_page_def

lemma recipe_filters_eq: "recipe_filters u input = recipe_listed u input"
  by (rule ext) (auto simp: recipe_filters_def recipe_listed_def db_and_def db_eq_def Let_def
      split: option.splits)

lemma session_filter_eq: "db_eq sess_userId (user_id u) = session_listed u"
  by (rule ext) (simp add: db_eq_def session_listed_def)

lemma offset_nat:
  "1 \<le> p \<Longrightarrow> 1 \<le> n \<Longrightarrow> nat ((p - 1) * n) = (nat p - 1) * nat n"
  by (simp add: nat_mult_distrib nat_diff_distrib)

lemma page_readable:
  "list_all readable rows \<Longrightarrow>
   list_all readable (take n (drop m (sort_key key (filter cond rows))))"
proof -
  assume "list_all readable rows"
  moreover have "set (take n (drop m (sort_key key (filter cond rows)))) \<subseteq> set rows"
    using set_take_subset [of n "drop m (sort_key key (filter cond rows))"]
      set_drop_subset [of m "sort_key key (filter cond rows)"]
    by auto
  ultimately show ?thesis
    by (auto simp: list_all_iff)
qed

lemma select_page_slice:
  assumes "1 \<le> p" and "1 \<le> n" and "exact_offset p n" and "list_all readable rows"
  shows "db_select_page readable cond key (nat n) (nat ((p - 1) * n)) rows =
           Inr (page_slice (nat p) (nat n) (sort_key key (filter cond rows)))"
proof -
  from assms(3) have "nat ((p - 1) * n) \<le> 9223372036854775807"
    by (simp add: exact_offset_def)
  moreover have "list_all readable
      (take (nat n) (drop (nat ((p - 1) * n)) (sort_key key (filter cond rows))))"
    by (rule page_readable [OF assms(4)])
  moreover have "nat ((p - 1) * n) = (nat p - 1) * nat n"
    by (rule offset_nat [OF assms(1,2)])
  ultimately show ?thesis
    by (simp add: db_select_page_def page_slice_def Let_def)
qed

lemma page_slice_sorted:
  "sorted (map key (page_slice p n (sort_key key rows)))"
  by (simp add: page_slice_def take_map [symmetric] drop_map [symmetric] sorted_wrt_take
      sorted_wrt_drop del: take_map drop_map)

lemma page_slice_length: "length (page_slice p n rows) \<le> n"
  by (simp add: page_slice_def)

lemma sessions_second_page:
  "listRecipeIdeaSessions list_db alice_context (sessions_page 2 1) =
     Inr \<lparr>items = [alice_session], total = 1, page = 2, pageSize = 1\<rparr>"
  by (simp add: listRecipeIdeaSessions_def eval_defs list_fixture_defs)

lemma recipes_one_per_page:
  "listGeneratedRecipes list_db alice_context ((recipes_page None None)\<lparr>lg_pageSize := 1\<rparr>) =
     Inr \<lparr>items = [recipe_of ''r2'' ''alice'' (Some ''s-alice'') False 10], total = 1, page = 1,
          pageSize = 1\<rparr>"
  by (simp add: listGeneratedRecipes_def recipe_filters_def eval_defs list_fixture_defs)

lemma recipes_of_session:
  "listGeneratedRecipes list_db alice_context (recipes_page (Some ''s-alice'') None) =
     Inr \<lparr>items = [recipe_of ''r2'' ''alice'' (Some ''s-alice'') False 10], total = 1, page = 1,
          pageSize = 20\<rparr>"
  by (simp add: listGeneratedRecipes_def recipe_filters_def eval_defs list_fixture_defs)

lemma recipes_all:
  "listGeneratedRecipes list_db alice_context (recipes_page None None) =
     Inr \<lparr>items = [recipe_of ''r2'' ''alice'' (Some ''s-alice'') False 10,
                   recipe_of ''r1'' ''alice'' None True 30],
          total = 2, page = 1, pageSize = 20\<rparr>"
  by (simp add: listGeneratedRecipes_def recipe_filters_def eval_defs list_fixture_defs)

text \<open>
  Claim C8. In the data of a successful \<^verbatim>\<open>listRecipeIdeaSessions\<close> or
  \<^verbatim>\<open>listGeneratedRecipes\<close> call, \<open>total\<close> is the number of items on the returned page
  and \<open>page\<close> and \<open>pageSize\<close> are the input's. The example after it has two rows that
  match and a page of one: \<open>total\<close> is 1.
\<close>

theorem list_total_is_page_length:
  "(listRecipeIdeaSessions db context input = Inr d \<longrightarrow>
      total d = int (length (items d)) \<and> page d = li_page input \<and> pageSize d = li_pageSize input)
   \<and> (listGeneratedRecipes db context rinput = Inr rd \<longrightarrow>
      total rd = int (length (items rd)) \<and> page rd = lg_page rinput
      \<and> pageSize rd = lg_pageSize rinput)"
  by (auto simp: listRecipeIdeaSessions_def listGeneratedRecipes_def Let_def split: sum.splits)

theorem list_total_is_page_length_witness:
  "listRecipeIdeaSessions list_db alice_context (sessions_page 2 1) =
     Inr \<lparr>items = [alice_session], total = 1, page = 2, pageSize = 1\<rparr>
   \<and> total \<lparr>items = [alice_session], total = 1, page = 2, pageSize = 1\<rparr> = int (length [alice_session])
   \<and> length (filter (session_listed alice) (RecipeIdeaSessions list_db)) = 2
   \<and> listGeneratedRecipes list_db alice_context ((recipes_page None None)\<lparr>lg_pageSize := 1\<rparr>) =
     Inr \<lparr>items = [recipe_of ''r2'' ''alice'' (Some ''s-alice'') False 10], total = 1, page = 1,
          pageSize = 1\<rparr>
   \<and> length (filter (recipe_listed alice (recipes_page None None)) (GeneratedRecipes list_db)) = 2"
proof -
  have "length (filter (session_listed alice) (RecipeIdeaSessions list_db)) = 2"
    and "length (filter (recipe_listed alice (recipes_page None None)) (GeneratedRecipes list_db)) = 2"
    by (simp_all add: session_listed_def recipe_listed_def list_fixture_defs)
  then show ?thesis
    using list_total_is_page_length [of list_db alice_context "sessions_page 2 1"
        "\<lparr>items = [alice_session], total = 1, page = 2, pageSize = 1\<rparr>"
        "(recipes_page None None)\<lparr>lg_pageSize := 1\<rparr>"
        "\<lparr>items = [recipe_of ''r2'' ''alice'' (Some ''s-alice'') False 10], total = 1, page = 1,
          pageSize = 1\<rparr>"]
      sessions_second_page recipes_one_per_page
    by simp
qed

text \<open>
  Claim C10. \<^verbatim>\<open>listGeneratedRecipes\<close> with the empty string as \<^verbatim>\<open>sessionId\<close> answers
  what it answers with no \<^verbatim>\<open>sessionId\<close>: the empty string is falsy at line 326, so no
  session condition is added. In the example no recipe has the empty string as its
  session, and both of the user's recipes are returned.
\<close>

theorem listGeneratedRecipes_empty_sessionId:
  "listGeneratedRecipes db context (input\<lparr>lg_sessionId := Some ''''\<rparr>) =
   listGeneratedRecipes db context (input\<lparr>lg_sessionId := None\<rparr>)"
  by (simp add: listGeneratedRecipes_def recipe_filters_def Let_def split: sum.splits)

theorem listGeneratedRecipes_empty_sessionId_witness:
  "listGeneratedRecipes list_db alice_context (recipes_page (Some '''') None) =
     listGeneratedRecipes list_db alice_context (recipes_page None None)
   \<and> listGeneratedRecipes list_db alice_context (recipes_page (Some '''') None) =
     Inr \<lparr>items = [recipe_of ''r2'' ''alice'' (Some ''s-alice'') False 10,
                   recipe_of ''r1'' ''alice'' None True 30],
          total = 2, page = 1, pageSize = 20\<rparr>
   \<and> filter (\<lambda>r. rec_sessionId r = Some '''') (GeneratedRecipes list_db) = []"
proof -
  have "filter (\<lambda>r. rec_sessionId r = Some '''') (GeneratedRecipes list_db) = []"
    by (simp add: list_fixture_defs)
  then show ?thesis
    using listGeneratedRecipes_empty_sessionId [of list_db alice_context "recipes_page None None"]
      recipes_all
    by (simp add: recipes_page_def)
qed

text \<open>
  Claim C9, amended. For a signed-in user, inputs within the schemas' bounds, an offset
  that is a safe integer and tables whose stored integers are safe, both list handlers
  return. The items of \<^verbatim>\<open>listRecipeIdeaSessions\<close> are the user's sessions, and the items
  of \<^verbatim>\<open>listGeneratedRecipes\<close> are the user's recipes that have the given session when a
  non-empty \<^verbatim>\<open>sessionId\<close> is given and are favourites when \<^verbatim>\<open>favoritesOnly\<close> is true;
  in both, ordered by creation time ascending (rows of equal time in table order), without
  the first \<open>(page - 1) * pageSize\<close> rows and at most \<open>pageSize\<close> of them. An empty
  \<^verbatim>\<open>sessionId\<close> restricts nothing.
\<close>

theorem list_items:
  assumes "requireUser context = Inr u"
    and "valid_list_input input" and "valid_recipe_list_input rinput"
    and "exact_offset (li_page input) (li_pageSize input)"
    and "exact_offset (lg_page rinput) (lg_pageSize rinput)"
    and "list_all readable_session (RecipeIdeaSessions db)"
    and "list_all readable_recipe (GeneratedRecipes db)"
  shows "\<exists>d rd.
      listRecipeIdeaSessions db context input = Inr d
      \<and> items d = page_slice (nat (li_page input)) (nat (li_pageSize input))
                    (sort_key sess_createdAt (filter (session_listed u) (RecipeIdeaSessions db)))
      \<and> sorted (map sess_createdAt (items d))
      \<and> length (items d) \<le> nat (li_pageSize input)
      \<and> listGeneratedRecipes db context rinput = Inr rd
      \<and> items rd = page_slice (nat (lg_page rinput)) (nat (lg_pageSize rinput))
                     (sort_key rec_createdAt (filter (recipe_listed u rinput) (GeneratedRecipes db)))
      \<and> sorted (map rec_createdAt (items rd))
      \<and> length (items rd) \<le> nat (lg_pageSize rinput)"
proof -
  from assms(2) have s: "1 \<le> li_page input" "1 \<le> li_pageSize input"
    by (simp_all add: valid_list_input_def)
  from assms(3) have r: "1 \<le> lg_page rinput" "1 \<le> lg_pageSize rinput"
    by (simp_all add: valid_recipe_list_input_def)
  show ?thesis
    using assms(1)
    by (simp add: listRecipeIdeaSessions_def listGeneratedRecipes_def Let_def
        select_page_slice [OF s assms(4) assms(6)] select_page_slice [OF r assms(5) assms(7)]
        recipe_filters_eq session_filter_eq page_slice_sorted page_slice_length)
qed

theorem list_items_witness:
  "requireUser alice_context = Inr alice
   \<and> valid_list_input (sessions_page 2 1)
   \<and> valid_recipe_list_input (recipes_page (Some ''s-alice'') None)
   \<and> exact_offset 2 1 \<and> exact_offset 1 20
   \<and> list_all readable_session (RecipeIdeaSessions list_db)
   \<and> list_all readable_recipe (GeneratedRecipes list_db)
   \<and> listRecipeIdeaSessions list_db alice_context (sessions_page 2 1) =
       Inr \<lparr>items = [alice_session], total = 1, page = 2, pageSize = 1\<rparr>
   \<and> page_slice 2 1 (sort_key sess_createdAt
        (filter (session_listed alice) (RecipeIdeaSessions list_db))) = [alice_session]
   \<and> listGeneratedRecipes list_db alice_context (recipes_page (Some ''s-alice'') None) =
       Inr \<lparr>items = [recipe_of ''r2'' ''alice'' (Some ''s-alice'') False 10], total = 1, page = 1,
            pageSize = 20\<rparr>
   \<and> page_slice 1 20 (sort_key rec_createdAt
        (filter (recipe_listed alice (recipes_page (Some ''s-alice'') None))
          (GeneratedRecipes list_db))) = [recipe_of ''r2'' ''alice'' (Some ''s-alice'') False 10]"
proof -
  have v: "valid_list_input (sessions_page 2 1)"
    "valid_recipe_list_input (recipes_page (Some ''s-alice'') None)"
    by (simp_all add: valid_list_input_def valid_recipe_list_input_def list_fixture_defs)
  have o: "exact_offset (li_page (sessions_page 2 1)) (li_pageSize (sessions_page 2 1))"
    "exact_offset (lg_page (recipes_page (Some ''s-alice'') None))
       (lg_pageSize (recipes_page (Some ''s-alice'') None))"
    by (simp_all add: exact_offset_def list_fixture_defs)
  have rd: "list_all readable_session (RecipeIdeaSessions list_db)"
    "list_all readable_recipe (GeneratedRecipes list_db)"
    by (simp_all add: readable_session_def readable_recipe_def safe_integer_def list_fixture_defs)
  have n: "nat (li_page (sessions_page 2 1)) = 2" "nat (li_pageSize (sessions_page 2 1)) = 1"
    "nat (lg_page (recipes_page (Some ''s-alice'') None)) = 1"
    "nat (lg_pageSize (recipes_page (Some ''s-alice'') None)) = 20"
    by (simp_all add: sessions_page_def recipes_page_def)
  have e: "exact_offset 2 1" "exact_offset 1 20"
    by (simp_all add: exact_offset_def)
  from list_items [OF requireUser_alice v o rd] show ?thesis
    using v e rd requireUser_alice sessions_second_page recipes_of_session
    by (auto simp: n)
qed

text \<open>
  Claim C9 as stated, with the session condition applied whenever a \<^verbatim>\<open>sessionId\<close> is
  provided, fails for the empty string: the claimed page is empty, the returned page has
  two recipes.
\<close>

theorem listGeneratedRecipes_session_filter_counterexample:
  "listGeneratedRecipes list_db alice_context (recipes_page (Some '''') None) =
     Inr \<lparr>items = [recipe_of ''r2'' ''alice'' (Some ''s-alice'') False 10,
                   recipe_of ''r1'' ''alice'' None True 30],
          total = 2, page = 1, pageSize = 20\<rparr>
   \<and> page_slice 1 20
       (sort_key rec_createdAt
         (filter (recipe_listed_as_claimed alice (recipes_page (Some '''') None))
           (GeneratedRecipes list_db))) = []"
  by (simp add: listGeneratedRecipes_def recipe_filters_def eval_defs list_fixture_defs
      recipe_listed_as_claimed_def page_slice_def)

text \<open>Beyond the store's range of offsets the handler raises: page \<open>10 ^ 19\<close>.\<close>

lemma page_beyond_offset:
  "listRecipeIdeaSessions list_db alice_context (sessions_page 10000000000000000000 20) =
     Inl StoreError"
  by (simp add: listRecipeIdeaSessions_def eval_defs list_fixture_defs)

subsection \<open>upsertGeneratedRecipe\<close>

lemmas upsert_defs = upsertGeneratedRecipe_def session_check_def replace_children_def
  replace_ingredients_def replace_steps_def randomUUID_def set_recipe_def
  recipe_updateData_of_def recipe_values_def

lemmas kitchen_defs = alice_def alice_context_def alice_session_def bob_session_def
  recipe_of_def ingredient_of_def step_of_def kitchen_db_def pasta_def flour_def egg_def
  boil_def drain_def empty_db_def test_uuid_def

lemma missing_ids_simps [simp]:
  "missing_ids [] = 0"
  "missing_ids (i # ids) = (if i = None then Suc (missing_ids ids) else missing_ids ids)"
  by (simp_all add: missing_ids_def)















lemma session_check_found:
  assumes "session_found db u sessionId"
  shows "session_check db u sessionId = Inr ()"
proof (cases sessionId)
  case None
  then show ?thesis by (simp add: session_check_def)
next
  case (Some s)
  let ?cond = "\<lambda>r. sess_id r = s \<and> sess_userId r = user_id u"
  from assms Some have s: "s \<noteq> []"
    and ex: "list_ex ?cond (RecipeIdeaSessions db)"
    and rd: "list_all readable_session (filter ?cond (RecipeIdeaSessions db))"
    by (simp_all add: session_found_def)
  from ex have "filter ?cond (RecipeIdeaSessions db) \<noteq> []"
    by (auto simp: list_ex_iff filter_empty_conv)
  with Some s select_found [OF rd] show ?thesis
    by (simp add: session_check_def cond_eq)
qed


lemma assigned_session_of [simp]:
  "assigned_session (recipe_updateData_of now input) = ri_sessionId input"
  by (simp add: recipe_updateData_of_def assigned_session_def split: option.splits)























text \<open>
  What the handler does with a reference that names nothing of the caller's: a non-empty
  \<^verbatim>\<open>sessionId\<close> gives NOT_FOUND and the store as it was, and so does a non-empty
  identifier.
\<close>

lemma session_check_not_found:
  assumes "s \<noteq> []"
    and "\<forall>r \<in> set (RecipeIdeaSessions db). sess_id r = s \<longrightarrow> sess_userId r \<noteq> user_id u"
  shows "session_check db u (Some s) =
           Inl (ActionError NOT_FOUND ''Linked recipe idea session not found.'')"
  using assms by (simp add: session_check_def select_empty)

lemma upsertGeneratedRecipe_session_not_found:
  assumes "requireUser context = Inr u"
    and "ri_sessionId input = Some s" and "s \<noteq> []"
    and "\<forall>r \<in> set (RecipeIdeaSessions db). sess_id r = s \<longrightarrow> sess_userId r \<noteq> user_id u"
  shows "upsertGeneratedRecipe uuid now db context input =
           (Inl (ActionError NOT_FOUND ''Linked recipe idea session not found.''), db)"
  using assms(1,2) session_check_not_found [OF assms(3,4)]
  by (simp add: upsertGeneratedRecipe_def)

lemma upsertGeneratedRecipe_recipe_not_found:
  assumes "requireUser context = Inr u"
    and "session_found db u (ri_sessionId input)"
    and "ri_id input = Some v" and "v \<noteq> []"
    and "\<forall>r \<in> set (GeneratedRecipes db). rec_id r = v \<longrightarrow> rec_userId r \<noteq> user_id u"
  shows "upsertGeneratedRecipe uuid now db context input =
           (Inl (ActionError NOT_FOUND ''Generated recipe not found.''), db)"
  using assms(1,3,4) session_check_found [OF assms(2)] select_empty [OF assms(5)]
  by (simp add: upsertGeneratedRecipe_def)

text \<open>
  Claim C1 says that an \<^verbatim>\<open>upsertGeneratedRecipe\<close> input with an identifier is an update
  or fails with NOT_FOUND, and never inserts. With the empty string as identifier the
  handler does insert: \<^verbatim>\<open>input.id ?? randomUUID()\<close> keeps the empty string (line 202),
  \<^verbatim>\<open>if (input.id)\<close> takes it for absent (line 204), and the create path writes a new row
  whose identifier is the empty string, with no call of the generator.
\<close>

theorem upsertGeneratedRecipe_empty_id_inserts:
  "upsertGeneratedRecipe uuid now kitchen_db alice_context (pasta (Some '''') None) =
     (Inr '''',
      kitchen_db\<lparr>GeneratedRecipes :=
        GeneratedRecipes kitchen_db @ [recipe_values '''' ''alice'' now (pasta (Some '''') None)]\<rparr>)"
  by (simp add: upsertGeneratedRecipe_def session_check_def replace_children_def
      replace_ingredients_def replace_steps_def recipe_values_def eval_defs kitchen_defs)

text \<open>
  Claim C2 says that a supplied session reference is verified by the handler, which
  fails with NOT_FOUND when no session of the caller has it. With the empty string as
  \<^verbatim>\<open>sessionId\<close> the check of lines 183 to 200 is skipped, line 226 puts the empty string
  into the update, and it is the store that refuses it, no session having that
  identifier: the caller gets INTERNAL_SERVER_ERROR, not NOT_FOUND. Nothing is written.
\<close>

theorem upsertGeneratedRecipe_empty_sessionId_refused:
  "upsertGeneratedRecipe uuid 50 kitchen_db alice_context (pasta (Some ''r1'') (Some '''')) =
     (Inl StoreError, kitchen_db)
   \<and> error_code_of StoreError = INTERNAL_SERVER_ERROR
   \<and> filter (\<lambda>r. sess_id r = '''') (RecipeIdeaSessions kitchen_db) = []"
  by (simp add: upsert_defs eval_defs kitchen_defs)

text \<open>
  Claim C7 says that a \<^verbatim>\<open>sessionId\<close> that refers to no session of the caller gives
  NOT_FOUND before any write. With the empty string as \<^verbatim>\<open>sessionId\<close>, on the create
  path, the handler goes on to the insert of the recipe row, which the store refuses: the
  error is INTERNAL_SERVER_ERROR, not NOT_FOUND. The tables are as before; one identifier
  was generated.
\<close>

theorem upsertGeneratedRecipe_empty_sessionId_not_NOT_FOUND:
  "upsertGeneratedRecipe test_uuid 50 empty_db alice_context
     ((pasta None (Some ''''))\<lparr>ri_ingredients := Some [flour]\<rparr>) =
     (Inl StoreError, empty_db\<lparr>uuid_calls := 1\<rparr>)
   \<and> error_code_of StoreError = INTERNAL_SERVER_ERROR
   \<and> RecipeIdeaSessions empty_db = []"
  by (simp add: upsert_defs eval_defs kitchen_defs)

end
